theory Spec2Isabelle
  imports Main
begin

section \<open>Notices (notice.go)\<close>

text \<open>
  A Go \<open>error\<close> is modelled by its message; the nil error is \<open>None\<close> of
  \<open>error option\<close>. A \<open>time.Time\<close> is an abstract timestamp.
\<close>

type_synonym error = string

record LifecycleNotice =
  LifecycleHookName :: string
  LifecycleActionToken :: string

text \<open>
  The three implementations of the interface \<open>Notice\<close>. A value of the interface type
  may also be nil: such a value is \<open>None\<close> of \<open>notice option\<close>.
\<close>

datatype notice =
    SpotNotice nat
  | LaunchNotice LifecycleNotice
  | TerminationNotice LifecycleNotice

definition NewSpotNotice :: "nat \<Rightarrow> notice" where
  "NewSpotNotice terminationTime = SpotNotice terminationTime"

definition NewLaunchNotice :: "string \<Rightarrow> string \<Rightarrow> notice" where
  "NewLaunchNotice hook token =
     LaunchNotice \<lparr>LifecycleHookName = hook, LifecycleActionToken = token\<rparr>"

definition NewTerminationNotice :: "string \<Rightarrow> string \<Rightarrow> notice" where
  "NewTerminationNotice hook token =
     TerminationNotice \<lparr>LifecycleHookName = hook, LifecycleActionToken = token\<rparr>"

fun notice_Type :: "notice \<Rightarrow> string" where
  "notice_Type (SpotNotice t) = ''spot''"
| "notice_Type (LaunchNotice l) = ''launch''"
| "notice_Type (TerminationNotice l) = ''termination''"

section \<open>The action handler (ServiceHandler)\<close>

text \<open>
  The handler is the file \<open>src/unnamed/part_000\<close>; the line numbers of this section
  are its lines. What a call of \<open>Handle\<close> does to the outside is recorded as a list
  of events, oldest first: the systemd jobs it requests, the calls it makes on the \<open>AWSClient\<close> interface,
  its log lines, and two internal events of \<open>ForLifecycleAction\<close>: the call of
  \<open>cancel()\<close> and the return of the heartbeat goroutine.
\<close>

datatype event =
    EvStartUnit string
  | EvStopUnit string
  | EvSendHeartbeat notice
  | EvCompleteLifecycleAction notice
  | EvCancel
  | EvHeartbeatExit
  | EvLog string

text \<open>
  The interface \<open>AWSClient\<close> as the handler uses it: the error each of the two calls
  returns for a notice.
\<close>

record AWSClient =
  SendHeartbeat_of :: "notice \<Rightarrow> error option"
  CompleteLifecycleAction_of :: "notice \<Rightarrow> error option"

record ServiceHandler =
  Service :: string
  HeartbeatInterval :: int
  Client :: AWSClient

text \<open>
  The answers of systemd during one action: the error of \<open>dbus.New()\<close>, the number of
  units and the error of \<open>ListUnitsByNames\<close>, the job number and the error of
  \<open>StartUnit\<close> and of \<open>StopUnit\<close>, and the string the job delivers on the channel
  \<open>results\<close>.
\<close>

record systemd =
  dbus_New :: "error option"
  ListUnitsByNames :: "nat \<times> error option"
  StartUnit :: "int \<times> error option"
  StopUnit :: "int \<times> error option"
  job_result :: string

type_synonym HandlerFunc = "notice \<Rightarrow> event list \<times> error option"

text \<open>
  \<open>WaitForServiceStart\<close>, lines 46 to 75. The two calls of \<open>fmt.Errorf\<close> at lines 66
  and 71 build an error value that no statement uses: they are the two bindings
  \<open>unused\<close> below, and the function falls through to \<open>return nil\<close>. With a nil
  \<open>err\<close>, the verb \<open>%v\<close> at line 58 prints \<open><nil>\<close>.
\<close>

definition WaitForServiceStart :: "ServiceHandler \<Rightarrow> systemd \<Rightarrow> HandlerFunc" where
  "WaitForServiceStart handler sd notice =
     (case dbus_New sd of
        Some err \<Rightarrow> ([], Some err)
      | None \<Rightarrow>
          (case ListUnitsByNames sd of
             (units, Some err) \<Rightarrow> ([], Some err)
           | (units, None) \<Rightarrow>
               if units \<noteq> 1
               then ([], Some (''failed to list status of systemd unit '' @ Service handler
                               @ '': <nil>''))
               else
                 (case StartUnit sd of
                    (n, Some err) \<Rightarrow> ([EvStartUnit (Service handler)], Some err)
                  | (n, None) \<Rightarrow>
                      (let unused = (if n = 0
                             then Some (''failed to start systemd unit '' @ Service handler
                                        @ '' due to unknown error'')
                             else None);
                           result = job_result sd;
                           unused = (if result \<noteq> ''done''
                             then Some (''failed to start systemd unit '' @ Service handler
                                        @ '', job returned '' @ result @ '' result'')
                             else None)
                       in ([EvStartUnit (Service handler)], None)))))"

text \<open>\<open>WaitForServiceStop\<close>, lines 77 to 106: the same with \<open>StopUnit\<close>.\<close>

definition WaitForServiceStop :: "ServiceHandler \<Rightarrow> systemd \<Rightarrow> HandlerFunc" where
  "WaitForServiceStop handler sd notice =
     (case dbus_New sd of
        Some err \<Rightarrow> ([], Some err)
      | None \<Rightarrow>
          (case ListUnitsByNames sd of
             (units, Some err) \<Rightarrow> ([], Some err)
           | (units, None) \<Rightarrow>
               if units \<noteq> 1
               then ([], Some (''failed to list status of systemd unit '' @ Service handler
                               @ '': <nil>''))
               else
                 (case StopUnit sd of
                    (n, Some err) \<Rightarrow> ([EvStopUnit (Service handler)], Some err)
                  | (n, None) \<Rightarrow>
                      (let unused = (if n = 0
                             then Some (''failed to start systemd unit '' @ Service handler
                                        @ '' due to unknown error'')
                             else None);
                           result = job_result sd;
                           unused = (if result \<noteq> ''done''
                             then Some (''failed to start systemd unit '' @ Service handler
                                        @ '', job returned '' @ result @ '' result'')
                             else None)
                       in ([EvStopUnit (Service handler)], None)))))"

subsection \<open>ForLifecycleAction: the caller and its heartbeat goroutine\<close>

text \<open>
  \<open>ForLifecycleAction\<close> (lines 108 to 135) runs two threads: the caller, whose
  statements are the program points of \<open>pc\<close>, and the goroutine of lines 112 to 121.
  A run is driven by a schedule that says which thread moves next:
  \<^item> \<open>StepMain\<close>: the caller executes its next statement;
  \<^item> \<open>StepTick\<close>: the goroutine's \<open>select\<close> takes \<open>case <-ticker.C\<close> and calls
    \<open>SendHeartbeat\<close>, whose result the code drops;
  \<^item> \<open>StepCtxDone\<close>: the goroutine's \<open>select\<close> takes \<open>case <-ctx.Done()\<close> and returns;
  \<^item> \<open>StepParentCancel\<close>: the context given to \<open>Handle\<close> is cancelled by its owner,
    which also closes the derived context.
  A step that is not enabled (a tick when the goroutine is not running, \<open>ctx.Done()\<close>
  while the context is open, the caller after its return) changes nothing. When the ticker
  has fired and the context is closed, Go's \<open>select\<close> may take either case, so
  \<open>StepTick\<close> stays enabled until the goroutine has returned. The action \<open>f\<close> is one
  step of the caller. \<open>time.NewTicker\<close> at line 110 panics when the interval is not
  positive: the caller then stops at its first statement, before the goroutine is
  started, and \<open>run_panic\<close> holds the value of the panic.
\<close>

datatype pc = AtSpawn | AtAction | AtComplete | AtCancel | AtReturn | Returned

datatype hb = NotStarted | Running | Exited

datatype sched = StepMain | StepTick | StepCtxDone | StepParentCancel

record run =
  pc :: pc
  hb :: hb
  ctx_done :: bool
  var_err :: "error option"
  events :: "event list"
  run_panic :: "string option"

definition start :: run where
  "start =
     \<lparr>pc = AtSpawn, hb = NotStarted, ctx_done = False, var_err = None, events = [],
      run_panic = None\<rparr>"

fun main_step :: "ServiceHandler \<Rightarrow> notice \<Rightarrow> HandlerFunc \<Rightarrow> run \<Rightarrow> run" where
  "main_step handler notice f r =
     (if run_panic r \<noteq> None then r
      else case pc r of
        AtSpawn \<Rightarrow>
          if HeartbeatInterval handler \<le> 0
          then r\<lparr>run_panic := Some ''non-positive interval for NewTicker''\<rparr>
          else r\<lparr>pc := AtAction, hb := Running\<rparr>
      | AtAction \<Rightarrow>
          (case f notice of
             (evs, None) \<Rightarrow> r\<lparr>pc := AtComplete, var_err := None, events := events r @ evs\<rparr>
           | (evs, Some e) \<Rightarrow>
               r\<lparr>pc := AtComplete, var_err := Some e,
                 events := events r @ evs
                   @ [EvLog (''failed to run '' @ notice_Type notice @ '' handler: '' @ e)]\<rparr>)
      | AtComplete \<Rightarrow>
          (case CompleteLifecycleAction_of (Client handler) notice of
             None \<Rightarrow> r\<lparr>pc := AtCancel, events := events r @ [EvCompleteLifecycleAction notice]\<rparr>
           | Some e \<Rightarrow>
               r\<lparr>pc := AtCancel,
                 events := events r @ [EvCompleteLifecycleAction notice,
                   EvLog (''failed to complete '' @ notice_Type notice
                          @ '' lifecycle action: '' @ e)]\<rparr>)
      | AtCancel \<Rightarrow> r\<lparr>pc := AtReturn, ctx_done := True, events := events r @ [EvCancel]\<rparr>
      | AtReturn \<Rightarrow> r\<lparr>pc := Returned\<rparr>
      | Returned \<Rightarrow> r)"

fun step :: "ServiceHandler \<Rightarrow> notice \<Rightarrow> HandlerFunc \<Rightarrow> run \<Rightarrow> sched \<Rightarrow> run" where
  "step handler notice f r StepMain = main_step handler notice f r"
| "step handler notice f r StepTick =
     (if hb r = Running then r\<lparr>events := events r @ [EvSendHeartbeat notice]\<rparr> else r)"
| "step handler notice f r StepCtxDone =
     (if hb r = Running \<and> ctx_done r
      then r\<lparr>hb := Exited, events := events r @ [EvHeartbeatExit]\<rparr> else r)"
| "step handler notice f r StepParentCancel = r\<lparr>ctx_done := True\<rparr>"

definition exec :: "ServiceHandler \<Rightarrow> notice \<Rightarrow> HandlerFunc \<Rightarrow> sched list \<Rightarrow> run" where
  "exec handler notice f sch = foldl (step handler notice f) start sch"

text \<open>
  What a call has done by the end of a schedule: \<open>returned\<close> is \<open>None\<close> while the
  caller has not returned, and \<open>Some e\<close> once it has returned the error \<open>e\<close>;
  \<open>panicked\<close> is the value of its panic, if it has panicked; the trace goes on after
  the return, since the goroutine may outlive the call.
\<close>

record outcome =
  returned :: "error option option"
  panicked :: "string option"
  trace :: "event list"

definition ForLifecycleAction ::
  "ServiceHandler \<Rightarrow> notice \<Rightarrow> HandlerFunc \<Rightarrow> sched list \<Rightarrow> outcome" where
  "ForLifecycleAction handler notice f sch =
     (let r = exec handler notice f sch
      in \<lparr>returned = (if pc r = Returned then Some (var_err r) else None),
          panicked = run_panic r, trace = events r\<rparr>)"

text \<open>
  \<open>Handle\<close>, lines 33 to 44. The spot branch calls \<open>WaitForServiceStop\<close> on the
  caller's thread and starts no goroutine, so its outcome does not depend on the schedule.
\<close>

fun Handle :: "ServiceHandler \<Rightarrow> systemd \<Rightarrow> notice option \<Rightarrow> sched list \<Rightarrow> outcome" where
  "Handle handler sd (Some (SpotNotice t)) sch =
     (case WaitForServiceStop handler sd (SpotNotice t) of
        (evs, e) \<Rightarrow> \<lparr>returned = Some e, panicked = None, trace = evs\<rparr>)"
| "Handle handler sd (Some (LaunchNotice l)) sch =
     ForLifecycleAction handler (LaunchNotice l) (WaitForServiceStart handler sd) sch"
| "Handle handler sd (Some (TerminationNotice l)) sch =
     ForLifecycleAction handler (TerminationNotice l) (WaitForServiceStop handler sd) sch"
| "Handle handler sd None sch =
     \<lparr>returned = Some (Some ''failed to handle unexpected notice type''), panicked = None,
      trace = []\<rparr>"

section \<open>The AWS client (awsClient)\<close>

text \<open>
  The client is the second part of \<open>src/listener.go\<close>, from line 121 on; the line
  numbers of this section are lines of that file. The struct \<open>awsClient\<close> caches
  two strings; the empty string means "not fetched yet".
  The services behind it (EC2 metadata, Auto Scaling, SQS) and the two library functions
  \<open>arn.Parse\<close> and \<open>json.Unmarshal\<close> are the record \<open>aws\<close>: for each call, what it
  returns. A Go pair \<open>(value, err)\<close> is a pair whose second component is the error.
\<close>

record awsClient =
  InstanceID :: string
  AutoScalingGroupName :: string

record Queue =
  Action :: string
  Name :: string
  URL :: string

record Message =
  EC2InstanceID :: string
  Message_LifecycleHookName :: string
  Message_LifecycleActionToken :: string
  LifecycleTransition :: string

record sqs_message =
  Body :: string
  ReceiptHandle :: string

record LifecycleHook =
  NotificationTargetARN :: string
  Hook_LifecycleTransition :: string

record ARN =
  ARN_Service :: string
  ARN_AccountID :: string
  ARN_Resource :: string

record CompleteLifecycleActionInput =
  Input_InstanceId :: string
  Input_AutoScalingGroupName :: string
  Input_LifecycleHookName :: string
  Input_LifecycleActionToken :: string
  Input_LifecycleActionResult :: string

record RecordLifecycleActionHeartbeatInput =
  Heartbeat_InstanceId :: string
  Heartbeat_AutoScalingGroupName :: string
  Heartbeat_LifecycleHookName :: string
  Heartbeat_LifecycleActionToken :: string

record aws =
  metadata_Available :: bool
  metadata_instance_id :: "string \<times> error option"
  DescribeAutoScalingInstances :: "string \<Rightarrow> string list \<times> error option"
  DescribeLifecycleHooks :: "string \<Rightarrow> LifecycleHook list \<times> error option"
  arn_Parse :: "string \<Rightarrow> ARN \<times> error option"
  GetQueueUrl :: "string \<Rightarrow> string \<Rightarrow> string \<times> error option"
  ReceiveMessage :: "string \<Rightarrow> sqs_message list \<times> error option"
  json_Unmarshal :: "string \<Rightarrow> Message option"
  DeleteMessage :: "string \<Rightarrow> string \<Rightarrow> error option"
  AutoScaling_RecordLifecycleActionHeartbeat ::
    "RecordLifecycleActionHeartbeatInput \<Rightarrow> error option"
  AutoScaling_CompleteLifecycleAction :: "CompleteLifecycleActionInput \<Rightarrow> error option"

definition LaunchLifecycleAction :: string where
  "LaunchLifecycleAction = ''autoscaling:EC2_INSTANCE_LAUNCHING''"

definition TerminationLifecycleAction :: string where
  "TerminationLifecycleAction = ''autoscaling:EC2_INSTANCE_TERMINATING''"

definition GetInstanceID :: "awsClient \<Rightarrow> aws \<Rightarrow> awsClient \<times> string \<times> error option" where
  "GetInstanceID client a =
     (if InstanceID client \<noteq> [] then (client, InstanceID client, None)
      else if \<not> metadata_Available a
      then (client, [], Some ''unable to access ec2 metadata api'')
      else (case metadata_instance_id a of
              (instanceID, Some err) \<Rightarrow> (client, [], Some err)
            | (instanceID, None) \<Rightarrow>
                (client\<lparr>InstanceID := instanceID\<rparr>, instanceID, None)))"

definition GetAutoScalingGroupName ::
  "awsClient \<Rightarrow> aws \<Rightarrow> awsClient \<times> string \<times> error option" where
  "GetAutoScalingGroupName client a =
     (if AutoScalingGroupName client \<noteq> []
      then (client, AutoScalingGroupName client, None)
      else (case metadata_instance_id a of
              (instanceID, Some err) \<Rightarrow> (client, [], Some err)
            | (instanceID, None) \<Rightarrow>
                (case DescribeAutoScalingInstances a instanceID of
                   (instances, Some err) \<Rightarrow> (client, [], Some err)
                 | (instances, None) \<Rightarrow>
                     (case instances of
                        [autoScalingGroupName] \<Rightarrow>
                          (client\<lparr>AutoScalingGroupName := autoScalingGroupName\<rparr>,
                           autoScalingGroupName, None)
                      | _ \<Rightarrow> (client, [],
                               Some ''instance is not controlled by an auto scaling group'')))))"




subsection \<open>GetLifecycleNotice\<close>

text \<open>
  The \<open>switch\<close> of lines 340 to 346. It has no default: for any other transition the
  variable \<open>notice\<close> keeps its nil value.
\<close>

definition notice_for :: "Message \<Rightarrow> notice option" where
  "notice_for m =
     (if LifecycleTransition m = LaunchLifecycleAction
      then Some (NewLaunchNotice (Message_LifecycleHookName m) (Message_LifecycleActionToken m))
      else if LifecycleTransition m = TerminationLifecycleAction
      then Some (NewTerminationNotice (Message_LifecycleHookName m)
                                      (Message_LifecycleActionToken m))
      else None)"

text \<open>
  The loop of lines 322 to 349 over the fetched messages. It returns the calls of
  \<open>DeleteMessage\<close> it has made (queue URL and receipt handle), the notice and the error.
\<close>

fun messages_loop ::
  "aws \<Rightarrow> Queue \<Rightarrow> string \<Rightarrow> sqs_message list
     \<Rightarrow> (string \<times> string) list \<times> notice option \<times> error option" where
  "messages_loop a queue instanceID [] = ([], None, None)"
| "messages_loop a queue instanceID (message # rest) =
     (case json_Unmarshal a (Body message) of
        None \<Rightarrow> messages_loop a queue instanceID rest
      | Some m \<Rightarrow>
          if EC2InstanceID m \<noteq> instanceID then messages_loop a queue instanceID rest
          else
            (case DeleteMessage a (URL queue) (ReceiptHandle message) of
               Some err \<Rightarrow> ([(URL queue, ReceiptHandle message)], None, Some err)
             | None \<Rightarrow> ([(URL queue, ReceiptHandle message)], notice_for m, None)))"

record fetched =
  client_after :: awsClient
  deletes :: "(string \<times> string) list"
  emitted :: "notice option"
  fetch_err :: "error option"

definition GetLifecycleNotice :: "awsClient \<Rightarrow> aws \<Rightarrow> Queue \<Rightarrow> fetched" where
  "GetLifecycleNotice client a queue =
     (case GetInstanceID client a of
        (client1, instanceID, Some err) \<Rightarrow>
          \<lparr>client_after = client1, deletes = [], emitted = None, fetch_err = Some err\<rparr>
      | (client1, instanceID, None) \<Rightarrow>
          (case ReceiveMessage a (URL queue) of
             (messages, Some err) \<Rightarrow>
               \<lparr>client_after = client1, deletes = [], emitted = None, fetch_err = Some err\<rparr>
           | (messages, None) \<Rightarrow>
               (case messages_loop a queue instanceID messages of
                  (ds, notice, e) \<Rightarrow>
                    \<lparr>client_after = client1, deletes = ds, emitted = notice,
                      fetch_err = e\<rparr>)))"

text \<open>
  A fetched message is addressed to an instance when its body parses and names that
  instance.
\<close>

definition addressed_to :: "aws \<Rightarrow> string \<Rightarrow> sqs_message \<Rightarrow> bool" where
  "addressed_to a instanceID message =
     (case json_Unmarshal a (Body message) of
        None \<Rightarrow> False
      | Some m \<Rightarrow> EC2InstanceID m = instanceID)"

subsection \<open>GetLifecycleNoticeQueues\<close>

text \<open>
  A Go map is an association list (newest entry first) when it has been made, and
  \<open>None\<close> when it is the nil map of \<open>var queues map[string]*Queue\<close>. Reading the
  nil map finds nothing; assigning to an entry of it panics. Go ranges over a map in an
  order it does not fix; the model takes the order of the list.
\<close>

type_synonym queues_map = "(string \<times> Queue) list option"

datatype 'a result = Ok 'a | Err error | Panic string

definition map_has :: "queues_map \<Rightarrow> string \<Rightarrow> bool" where
  "map_has queues k = (case queues of None \<Rightarrow> False | Some kvs \<Rightarrow> map_of kvs k \<noteq> None)"

definition map_assign :: "queues_map \<Rightarrow> string \<Rightarrow> Queue \<Rightarrow> queues_map result" where
  "map_assign queues k v =
     (case queues of
        None \<Rightarrow> Panic ''assignment to entry in nil map''
      | Some kvs \<Rightarrow> Ok (Some ((k, v) # filter (\<lambda>kv. fst kv \<noteq> k) kvs)))"

definition map_values :: "queues_map \<Rightarrow> Queue list" where
  "map_values queues = (case queues of None \<Rightarrow> [] | Some kvs \<Rightarrow> map snd kvs)"

text \<open>The loop of lines 251 to 278 over the lifecycle hooks.\<close>

fun hooks_loop :: "aws \<Rightarrow> queues_map \<Rightarrow> LifecycleHook list \<Rightarrow> queues_map result" where
  "hooks_loop a queues [] = Ok queues"
| "hooks_loop a queues (hook # rest) =
     (if map_has queues (NotificationTargetARN hook) then hooks_loop a queues rest
      else
        (case arn_Parse a (NotificationTargetARN hook) of
           (parsed, Some err) \<Rightarrow> Err err
         | (parsed, None) \<Rightarrow>
             if ARN_Service parsed \<noteq> ''sqs'' then hooks_loop a queues rest
             else
               (case GetQueueUrl a (ARN_Resource parsed) (ARN_AccountID parsed) of
                  (url, Some err) \<Rightarrow> Err err
                | (url, None) \<Rightarrow>
                    (case map_assign queues (NotificationTargetARN hook)
                            \<lparr>Action = Hook_LifecycleTransition hook,
                             Name = ARN_Resource parsed, URL = url\<rparr> of
                       Ok queues' \<Rightarrow> hooks_loop a queues' rest
                     | Err e \<Rightarrow> Err e
                     | Panic p \<Rightarrow> Panic p))))"

definition GetLifecycleNoticeQueues ::
  "awsClient \<Rightarrow> aws \<Rightarrow> awsClient \<times> Queue list result" where
  "GetLifecycleNoticeQueues client a =
     (case GetAutoScalingGroupName client a of
        (client1, autoScalingGroupName, Some err) \<Rightarrow> (client1, Err err)
      | (client1, autoScalingGroupName, None) \<Rightarrow>
          (case DescribeLifecycleHooks a autoScalingGroupName of
             (hooks, Some err) \<Rightarrow> (client1, Err err)
           | (hooks, None) \<Rightarrow>
               (case hooks_loop a None hooks of
                  Ok queues \<Rightarrow> (client1, Ok (map_values queues))
                | Err e \<Rightarrow> (client1, Err e)
                | Panic p \<Rightarrow> (client1, Panic p))))"

section \<open>The event sources (listener.go)\<close>

text \<open>
  The listeners are the first part of \<open>src/listener.go\<close>, lines 1 to 120. The local
  state of a \<open>Listen\<close> loop: the variable \<open>notice\<close>; whether the variable
  \<open>notices\<close> is the channel \<open>listener.Notices\<close> (a send on the nil channel it starts
  as never proceeds); the values the channel has accepted, oldest first (a nil
  \<open>Notice\<close> is \<open>None\<close>); the log lines; and whether \<open>Listen\<close> has returned, which
  it does with a nil error only; and the value of its panic, if it has panicked.
\<close>

record listener =
  var_notice :: "notice option"
  var_notices :: bool
  sent :: "notice option list"
  logs :: "string list"
  stopped :: bool
  listener_panic :: "string option"

definition listener_start :: listener where
  "listener_start =
     \<lparr>var_notice = None, var_notices = False, sent = [], logs = [], stopped = False,
      listener_panic = None\<rparr>"

text \<open>The field of \<open>SpotListener\<close> that the loop depends on.\<close>

record SpotListener =
  Interval :: int

text \<open>Lines 68 to 70 and 95 to 97: the head of each iteration.\<close>

definition enable :: "listener \<Rightarrow> listener" where
  "enable s = (if var_notice s \<noteq> None then s\<lparr>var_notices := True\<rparr> else s)"

definition poll_into :: "string \<Rightarrow> notice option \<times> error option \<Rightarrow> listener \<Rightarrow> listener" where
  "poll_into msg res s =
     (case res of
        (n, None) \<Rightarrow> s\<lparr>var_notice := n\<rparr>
      | (n, Some e) \<Rightarrow> s\<lparr>var_notice := n, logs := logs s @ [msg @ e]\<rparr>)"

text \<open>
  \<open>SpotListener.Listen\<close>, lines 61 to 85. Each event is the case its \<open>select\<close>
  takes next: the dispatcher accepts the send, the ticker fires and \<open>GetSpotNotice\<close>
  returns the given pair, or the context is done. While \<open>notices\<close> is nil the send
  case cannot be taken, and the loop stays in the \<open>select\<close>. Before the loop,
  \<open>time.NewTicker\<close> at line 62 panics when the interval is not positive.
\<close>

datatype spot_event =
    SpotAccept
  | SpotTick "notice option \<times> error option"
  | SpotCtxDone

fun spot_step :: "listener \<Rightarrow> spot_event \<Rightarrow> listener" where
  "spot_step s ev =
     (if stopped s then s
      else
        (let s1 = enable s
         in case ev of
              SpotAccept \<Rightarrow>
                if var_notices s1
                then s1\<lparr>sent := sent s1 @ [var_notice s1], var_notices := False\<rparr>
                else s1
            | SpotTick res \<Rightarrow> poll_into ''failed to get spot notice: '' res s1
            | SpotCtxDone \<Rightarrow> s1\<lparr>stopped := True\<rparr>))"

definition SpotListener_Listen :: "SpotListener \<Rightarrow> spot_event list \<Rightarrow> listener" where
  "SpotListener_Listen listener evs =
     (if Interval listener \<le> 0
      then listener_start\<lparr>listener_panic := Some ''non-positive interval for NewTicker''\<rparr>
      else foldl spot_step listener_start evs)"

text \<open>
  \<open>LifecycleListener.Listen\<close>, lines 91 to 112. Its \<open>select\<close> has a default case, so
  every iteration takes a case at once. An iteration is given by what is ready when it
  runs: whether the dispatcher is receiving, whether the context is done, which of the two
  Go picks when both cases can proceed, and what \<open>GetLifecycleNotice\<close> returns if the
  default case runs.
\<close>

datatype lifecycle_event =
  Iteration bool bool bool "notice option \<times> error option"

fun lifecycle_step :: "string \<Rightarrow> listener \<Rightarrow> lifecycle_event \<Rightarrow> listener" where
  "lifecycle_step queue_name s (Iteration receiving ctx_is_done picks_done res) =
     (if stopped s then s
      else
        (let s1 = enable s;
             can_send = (var_notices s1 \<and> receiving)
         in if can_send \<and> \<not> (ctx_is_done \<and> picks_done)
            then s1\<lparr>sent := sent s1 @ [var_notice s1], var_notices := False\<rparr>
            else if ctx_is_done then s1\<lparr>stopped := True\<rparr>
            else poll_into (''failed to get lifecycle notice from queue '' @ queue_name
                            @ '': '') res s1))"

definition LifecycleListener_Listen :: "Queue \<Rightarrow> lifecycle_event list \<Rightarrow> listener" where
  "LifecycleListener_Listen queue evs = foldl (lifecycle_step (Name queue)) listener_start evs"

text \<open>
  The results of the polls in a schedule of the spot listener; and, for the lifecycle
  listener, of the polls that run whatever the state: those of the iterations in which
  the dispatcher is not receiving and the context is open. While a notice is held the
  lifecycle listener polls in no other iteration.
\<close>

fun spot_polls :: "spot_event list \<Rightarrow> (notice option \<times> error option) list" where
  "spot_polls [] = []"
| "spot_polls (SpotTick res # evs) = res # spot_polls evs"
| "spot_polls (ev # evs) = spot_polls evs"

fun lifecycle_polls :: "lifecycle_event list \<Rightarrow> (notice option \<times> error option) list" where
  "lifecycle_polls [] = []"
| "lifecycle_polls (Iteration False False picks_done res # evs) = res # lifecycle_polls evs"
| "lifecycle_polls (ev # evs) = lifecycle_polls evs"

section \<open>The dispatch loop of main\<close>

text \<open>
  The loop of \<open>main\<close>, lines 52 to 63 of \<open>src/unnamed/part_001\<close>. Its condition is
  \<open>ctx.Err() != nil\<close>: the body runs while the context is cancelled. An event is the
  case the \<open>select\<close> takes: a notice received from the channel, on which \<open>Handle\<close> is
  called, or a signal, on which \<open>cancel()\<close> is called. The result is the notices on which
  \<open>Handle\<close> has been called, oldest first, and whether the loop has been left (with no
  event left, a loop that is not left waits in its \<open>select\<close>).
\<close>

datatype main_event = NoticeReceived "notice option" | SignalReceived

fun main_loop :: "bool \<Rightarrow> main_event list \<Rightarrow> notice option list \<times> bool" where
  "main_loop cancelled [] = (if \<not> cancelled then ([], True) else ([], False))"
| "main_loop cancelled (ev # rest) =
     (if \<not> cancelled then ([], True)
      else
        (case ev of
           NoticeReceived notice \<Rightarrow>
             (case main_loop cancelled rest of (handled, left) \<Rightarrow> (notice # handled, left))
         | SignalReceived \<Rightarrow> main_loop True rest))"

text \<open>
  When \<open>main\<close> reaches the loop, the context of line 42 has just been made: \<open>cancel\<close>
  is called at line 61 only, inside the loop, and the error group cancels it only when a
  \<open>Listen\<close> returns an error or after \<open>Wait\<close>, which comes after the loop.
\<close>

definition main :: "main_event list \<Rightarrow> notice option list \<times> bool" where
  "main evs = main_loop False evs"

section \<open>Properties of traces and concrete inputs\<close>

fun is_heartbeat :: "event \<Rightarrow> bool" where
  "is_heartbeat (EvSendHeartbeat n) = True"
| "is_heartbeat e = False"

fun is_completion :: "event \<Rightarrow> bool" where
  "is_completion (EvCompleteLifecycleAction n) = True"
| "is_completion e = False"

fun is_cancel :: "event \<Rightarrow> bool" where
  "is_cancel EvCancel = True"
| "is_cancel e = False"

fun is_heartbeat_exit :: "event \<Rightarrow> bool" where
  "is_heartbeat_exit EvHeartbeatExit = True"
| "is_heartbeat_exit e = False"

fun is_systemd :: "event \<Rightarrow> bool" where
  "is_systemd (EvStartUnit s) = True"
| "is_systemd (EvStopUnit s) = True"
| "is_systemd e = False"

text \<open>\<open>never_after P Q tr\<close>: in the trace, no \<open>P\<close> event comes after a \<open>Q\<close> event.\<close>

fun never_after :: "('a \<Rightarrow> bool) \<Rightarrow> ('a \<Rightarrow> bool) \<Rightarrow> 'a list \<Rightarrow> bool" where
  "never_after P Q [] = True"
| "never_after P Q (e # es) = ((\<not> Q e \<or> \<not> list_ex P es) \<and> never_after P Q es)"

text \<open>The rank of a program point: the number of statements the caller has executed.\<close>

fun rank :: "pc \<Rightarrow> nat" where
  "rank AtSpawn = 0"
| "rank AtAction = 1"
| "rank AtComplete = 2"
| "rank AtCancel = 3"
| "rank AtReturn = 4"
| "rank Returned = 5"

text \<open>
  A handler whose client accepts every call, one whose client fails every completion,
  one whose heartbeat interval is zero, and answers of systemd: a job that ends with \<open>done\<close>, a job that ends with
  \<open>failed\<close>, a request that creates job number 0, and a bus that cannot be reached.
\<close>

definition handler_ok :: ServiceHandler where
  "handler_ok =
     \<lparr>Service = ''app.service'', HeartbeatInterval = 60,
      Client = \<lparr>SendHeartbeat_of = (\<lambda>n. None), CompleteLifecycleAction_of = (\<lambda>n. None)\<rparr>\<rparr>"

definition handler_completion_fails :: ServiceHandler where
  "handler_completion_fails =
     \<lparr>Service = ''app.service'', HeartbeatInterval = 60,
      Client = \<lparr>SendHeartbeat_of = (\<lambda>n. None),
                CompleteLifecycleAction_of = (\<lambda>n. Some ''ValidationError'')\<rparr>\<rparr>"

definition handler_zero_interval :: ServiceHandler where
  "handler_zero_interval = handler_ok\<lparr>HeartbeatInterval := 0\<rparr>"

definition systemd_done :: systemd where
  "systemd_done =
     \<lparr>dbus_New = None, ListUnitsByNames = (1, None), StartUnit = (7, None),
      StopUnit = (7, None), job_result = ''done''\<rparr>"

definition systemd_failed :: systemd where
  "systemd_failed =
     \<lparr>dbus_New = None, ListUnitsByNames = (1, None), StartUnit = (7, None),
      StopUnit = (7, None), job_result = ''failed''\<rparr>"

definition systemd_no_job :: systemd where
  "systemd_no_job =
     \<lparr>dbus_New = None, ListUnitsByNames = (1, None), StartUnit = (0, None),
      StopUnit = (0, None), job_result = ''done''\<rparr>"

definition systemd_unreachable :: systemd where
  "systemd_unreachable =
     \<lparr>dbus_New = Some ''dial unix /run/systemd/private: no such file'',
      ListUnitsByNames = (0, None), StartUnit = (0, None), StopUnit = (0, None),
      job_result = []\<rparr>"

definition launch_notice :: notice where
  "launch_notice = NewLaunchNotice ''launch-hook'' ''tok-1''"

text \<open>
  An instance \<open>i-1\<close> of the group \<open>asg\<close>, whose only lifecycle hook notifies the SQS
  queue \<open>hooks\<close>. A message body is parsed by \<open>parse_body\<close>: the fields are separated
  by \<open>|\<close> in the bodies used here.
\<close>

definition client_fresh :: awsClient where
  "client_fresh = \<lparr>InstanceID = [], AutoScalingGroupName = []\<rparr>"

definition client_cached :: awsClient where
  "client_cached = \<lparr>InstanceID = ''i-1'', AutoScalingGroupName = ''asg''\<rparr>"

definition hook_arn :: string where
  "hook_arn = ''arn:aws:sqs:us-east-1:123456789012:hooks''"

definition queue_url :: string where
  "queue_url = ''https://sqs.us-east-1.amazonaws.com/123456789012/hooks''"

definition parse_body :: "string \<Rightarrow> Message option" where
  "parse_body body =
     (if body = ''i-1|launch-hook|tok-1|LAUNCHING''
      then Some \<lparr>EC2InstanceID = ''i-1'', Message_LifecycleHookName = ''launch-hook'',
                 Message_LifecycleActionToken = ''tok-1'',
                 LifecycleTransition = ''autoscaling:EC2_INSTANCE_LAUNCHING''\<rparr>
      else if body = ''i-1|term-hook|tok-2|TERMINATING''
      then Some \<lparr>EC2InstanceID = ''i-1'', Message_LifecycleHookName = ''term-hook'',
                 Message_LifecycleActionToken = ''tok-2'',
                 LifecycleTransition = ''autoscaling:EC2_INSTANCE_TERMINATING''\<rparr>
      else if body = ''i-1|launch-hook|tok-3|TEST''
      then Some \<lparr>EC2InstanceID = ''i-1'', Message_LifecycleHookName = ''launch-hook'',
                 Message_LifecycleActionToken = ''tok-3'',
                 LifecycleTransition = ''autoscaling:TEST_NOTIFICATION''\<rparr>
      else if body = ''i-2|launch-hook|tok-4|LAUNCHING''
      then Some \<lparr>EC2InstanceID = ''i-2'', Message_LifecycleHookName = ''launch-hook'',
                 Message_LifecycleActionToken = ''tok-4'',
                 LifecycleTransition = ''autoscaling:EC2_INSTANCE_LAUNCHING''\<rparr>
      else None)"

definition aws_with :: "sqs_message list \<Rightarrow> aws" where
  "aws_with messages =
     \<lparr>metadata_Available = True,
      metadata_instance_id = (''i-1'', None),
      DescribeAutoScalingInstances = (\<lambda>instanceID. ([''asg''], None)),
      DescribeLifecycleHooks = (\<lambda>name.
        ([\<lparr>NotificationTargetARN = hook_arn,
           Hook_LifecycleTransition = ''autoscaling:EC2_INSTANCE_LAUNCHING''\<rparr>], None)),
      arn_Parse = (\<lambda>s.
        (\<lparr>ARN_Service = ''sqs'', ARN_AccountID = ''123456789012'', ARN_Resource = ''hooks''\<rparr>,
         None)),
      GetQueueUrl = (\<lambda>name account. (queue_url, None)),
      ReceiveMessage = (\<lambda>url. (messages, None)),
      json_Unmarshal = parse_body,
      DeleteMessage = (\<lambda>url handle. None),
      AutoScaling_RecordLifecycleActionHeartbeat = (\<lambda>input. None),
      AutoScaling_CompleteLifecycleAction = (\<lambda>input. None)\<rparr>"

definition hooks_queue :: Queue where
  "hooks_queue =
     \<lparr>Action = ''autoscaling:EC2_INSTANCE_LAUNCHING'', Name = ''hooks'', URL = queue_url\<rparr>"

definition msg_launch :: sqs_message where
  "msg_launch = \<lparr>Body = ''i-1|launch-hook|tok-1|LAUNCHING'', ReceiptHandle = ''r1''\<rparr>"

definition msg_terminate :: sqs_message where
  "msg_terminate = \<lparr>Body = ''i-1|term-hook|tok-2|TERMINATING'', ReceiptHandle = ''r2''\<rparr>"

definition msg_test :: sqs_message where
  "msg_test = \<lparr>Body = ''i-1|launch-hook|tok-3|TEST'', ReceiptHandle = ''r3''\<rparr>"

definition msg_other :: sqs_message where
  "msg_other = \<lparr>Body = ''i-2|launch-hook|tok-4|LAUNCHING'', ReceiptHandle = ''r4''\<rparr>"

text \<open>
  The action \<open>Handle\<close> passes on for each notice (lines 35 to 40), and the line
  \<open>ForLifecycleAction\<close> logs when the completion call fails (line 129).
\<close>

fun action_of :: "ServiceHandler \<Rightarrow> systemd \<Rightarrow> notice \<Rightarrow> HandlerFunc" where
  "action_of handler sd (SpotNotice t) = WaitForServiceStop handler sd"
| "action_of handler sd (LaunchNotice l) = WaitForServiceStart handler sd"
| "action_of handler sd (TerminationNotice l) = WaitForServiceStop handler sd"

definition completion_log :: "notice \<Rightarrow> error \<Rightarrow> event" where
  "completion_log notice e =
     EvLog (''failed to complete '' @ notice_Type notice @ '' lifecycle action: '' @ e)"

text \<open>
  What holds of every state a run of \<open>ForLifecycleAction\<close> reaches, by program point of
  the caller and state of the goroutine.
\<close>

definition run_inv :: "ServiceHandler \<Rightarrow> notice \<Rightarrow> HandlerFunc \<Rightarrow> run \<Rightarrow> bool" where
  "run_inv handler notice f r =
     ((rank (pc r) \<le> 2 \<longrightarrow> filter is_completion (events r) = [])
      \<and> (3 \<le> rank (pc r) \<longrightarrow>
           filter is_completion (events r) = [EvCompleteLifecycleAction notice])
      \<and> (2 \<le> rank (pc r) \<longrightarrow> var_err r = snd (f notice))
      \<and> (rank (pc r) \<le> 3 \<longrightarrow> filter is_cancel (events r) = [])
      \<and> (4 \<le> rank (pc r) \<longrightarrow> filter is_cancel (events r) = [EvCancel])
      \<and> (hb r \<noteq> Exited \<longrightarrow> \<not> list_ex is_heartbeat_exit (events r))
      \<and> (pc r = AtSpawn \<longrightarrow> hb r = NotStarted)
      \<and> (3 \<le> rank (pc r) \<longrightarrow>
           (\<forall>e. CompleteLifecycleAction_of (Client handler) notice = Some e
                \<longrightarrow> completion_log notice e \<in> set (events r)))
      \<and> never_after is_heartbeat is_heartbeat_exit (events r)
      \<and> never_after is_completion is_cancel (events r))"

text \<open>
  Two schedules: the ticker fires between the completion call and \<open>cancel()\<close>; and the
  caller runs to its return before the goroutine moves, the ticker fires, and the
  goroutine then sees the closed context.
\<close>

definition schedule_tick_before_cancel :: "sched list" where
  "schedule_tick_before_cancel =
     [StepMain, StepMain, StepMain, StepTick, StepMain, StepMain]"

definition schedule_tick_after_return :: "sched list" where
  "schedule_tick_after_return =
     [StepMain, StepMain, StepMain, StepMain, StepMain, StepTick, StepCtxDone, StepTick]"

definition schedule_main_only :: "sched list" where
  "schedule_main_only = [StepMain, StepMain, StepMain, StepMain, StepMain]"

definition launch_payload :: LifecycleNotice where
  "launch_payload = \<lparr>LifecycleHookName = ''launch-hook'', LifecycleActionToken = ''tok-1''\<rparr>"



text \<open>The same services, with every call of \<open>DeleteMessage\<close> failing.\<close>

definition aws_delete_fails :: "sqs_message list \<Rightarrow> aws" where
  "aws_delete_fails messages =
     (aws_with messages)\<lparr>DeleteMessage := (\<lambda>url handle. Some ''AccessDenied'')\<rparr>"

text \<open>The undelivered notices a listener holds: the content of its variable.\<close>

definition pending :: "listener \<Rightarrow> notice list" where
  "pending s = (case var_notice s of None \<Rightarrow> [] | Some n \<Rightarrow> [n])"

text \<open>
  A spot listener that polls every 30 seconds, and schedules of the two listeners: a poll
  that finds nothing, then one that finds a notice; the same notice polled again, then
  accepted; a poll that fails, or finds the queue empty, while the notice waits, then the
  dispatcher accepting.
\<close>

definition spot_listener :: SpotListener where
  "spot_listener = \<lparr>Interval = 30\<rparr>"

definition spot_detects :: "spot_event list" where
  "spot_detects = [SpotTick (None, None), SpotTick (Some (SpotNotice 5), None)]"

definition spot_polls_again :: "spot_event list" where
  "spot_polls_again = [SpotTick (Some (SpotNotice 5), None), SpotAccept]"

definition spot_poll_fails :: "spot_event list" where
  "spot_poll_fails = [SpotTick (None, Some ''timeout''), SpotAccept]"

definition lifecycle_detects :: "lifecycle_event list" where
  "lifecycle_detects =
     [Iteration False False False (None, None),
      Iteration False False False (Some launch_notice, None)]"

definition lifecycle_accepted :: "lifecycle_event list" where
  "lifecycle_accepted = [Iteration True False False (None, None)]"

definition lifecycle_queue_empty :: "lifecycle_event list" where
  "lifecycle_queue_empty =
     [Iteration False False False (None, None), Iteration True False False (None, None)]"

section \<open>The actions and the spot branch of Handle\<close>

lemma WaitForServiceStart_systemd:
  "list_all is_systemd (fst (WaitForServiceStart handler sd notice))"
  by (simp add: WaitForServiceStart_def Let_def split: option.split prod.split)

lemma WaitForServiceStop_systemd:
  "list_all is_systemd (fst (WaitForServiceStop handler sd notice))"
  by (simp add: WaitForServiceStop_def Let_def split: option.split prod.split)

lemma systemd_not_protocol:
  "list_all is_systemd evs \<Longrightarrow>
     filter is_completion evs = [] \<and> filter is_heartbeat evs = []
     \<and> \<not> list_ex is_cancel evs \<and> \<not> list_ex is_heartbeat_exit evs
     \<and> \<not> list_ex is_heartbeat evs \<and> \<not> list_ex is_completion evs"
proof (induction evs)
  case Nil
  then show ?case by simp
next
  case (Cons e evs)
  then show ?case by (cases e) simp_all
qed

text \<open>
  Once the job has been requested without error, both actions return nil, whatever the
  job number and whatever the job reports.
\<close>

lemma WaitForServiceStart_nil_after_request:
  "dbus_New sd = None \<Longrightarrow> ListUnitsByNames sd = (1, None) \<Longrightarrow> StartUnit sd = (n, None)
   \<Longrightarrow> WaitForServiceStart handler sd notice = ([EvStartUnit (Service handler)], None)"
  by (simp add: WaitForServiceStart_def)

lemma WaitForServiceStop_nil_after_request:
  "dbus_New sd = None \<Longrightarrow> ListUnitsByNames sd = (1, None) \<Longrightarrow> StopUnit sd = (n, None)
   \<Longrightarrow> WaitForServiceStop handler sd notice = ([EvStopUnit (Service handler)], None)"
  by (simp add: WaitForServiceStop_def)

text \<open>
  Claim C5 says that a start or stop whose job reports a result other than \<open>done\<close>, or
  that creates no job, makes the action return a non-nil error. The code does not: when
  the job of \<open>app.service\<close> reports \<open>failed\<close>, and when the request returns job number
  0, \<open>WaitForServiceStart\<close> and \<open>WaitForServiceStop\<close> request the job and return nil.
\<close>

theorem WaitForService_discards_job_failure:
  "WaitForServiceStart handler systemd_failed notice = ([EvStartUnit (Service handler)], None)
   \<and> WaitForServiceStop handler systemd_failed notice = ([EvStopUnit (Service handler)], None)
   \<and> WaitForServiceStart handler systemd_no_job notice = ([EvStartUnit (Service handler)], None)
   \<and> WaitForServiceStop handler systemd_no_job notice = ([EvStopUnit (Service handler)], None)"
  by (simp add: WaitForServiceStart_def WaitForServiceStop_def systemd_failed_def
      systemd_no_job_def)

text \<open>
  Claim C9: on a spot-termination notice, \<open>Handle\<close> runs the stop action and returns its
  result. Under every schedule its outcome is the events and the error of
  \<open>WaitForServiceStop\<close>: when the bus is reached and the unit is listed once, it asks
  systemd for exactly one stop job of the service and returns the error of that request,
  and otherwise it returns the error that kept it from asking. It never panics, and its
  trace holds no heartbeat send and no completion acknowledgment.
\<close>

theorem Handle_spot_no_hook_protocol:
  "Handle handler sd (Some (SpotNotice t)) sch =
     \<lparr>returned = Some (snd (WaitForServiceStop handler sd (SpotNotice t))), panicked = None,
      trace = fst (WaitForServiceStop handler sd (SpotNotice t))\<rparr>
   \<and> (dbus_New sd = None \<and> ListUnitsByNames sd = (1, None) \<longrightarrow>
         Handle handler sd (Some (SpotNotice t)) sch =
           \<lparr>returned = Some (snd (StopUnit sd)), panicked = None,
            trace = [EvStopUnit (Service handler)]\<rparr>)
   \<and> (\<forall>e. dbus_New sd = Some e \<longrightarrow>
         Handle handler sd (Some (SpotNotice t)) sch =
           \<lparr>returned = Some (Some e), panicked = None, trace = []\<rparr>)
   \<and> (\<forall>units e. dbus_New sd = None \<and> ListUnitsByNames sd = (units, Some e) \<longrightarrow>
         Handle handler sd (Some (SpotNotice t)) sch =
           \<lparr>returned = Some (Some e), panicked = None, trace = []\<rparr>)
   \<and> (\<forall>units. dbus_New sd = None \<and> ListUnitsByNames sd = (units, None) \<and> units \<noteq> 1
         \<longrightarrow>
         Handle handler sd (Some (SpotNotice t)) sch =
           \<lparr>returned = Some (Some (''failed to list status of systemd unit ''
                                      @ Service handler @ '': <nil>'')),
            panicked = None, trace = []\<rparr>)
   \<and> filter is_heartbeat (trace (Handle handler sd (Some (SpotNotice t)) sch)) = []
   \<and> filter is_completion (trace (Handle handler sd (Some (SpotNotice t)) sch)) = []"
proof -
  obtain evs e where w: "WaitForServiceStop handler sd (SpotNotice t) = (evs, e)"
    by (cases "WaitForServiceStop handler sd (SpotNotice t)")
  have "list_all is_systemd evs"
    using WaitForServiceStop_systemd [of handler sd "SpotNotice t"] w by simp
  then have none: "filter is_heartbeat evs = []" "filter is_completion evs = []"
    using systemd_not_protocol by blast+
  have a: "Handle handler sd (Some (SpotNotice t)) sch =
     \<lparr>returned = Some (snd (WaitForServiceStop handler sd (SpotNotice t))), panicked = None,
      trace = fst (WaitForServiceStop handler sd (SpotNotice t))\<rparr>"
    using w by simp
  have b: "dbus_New sd = None \<Longrightarrow> ListUnitsByNames sd = (1, None) \<Longrightarrow>
         WaitForServiceStop handler sd (SpotNotice t) =
           ([EvStopUnit (Service handler)], snd (StopUnit sd))"
    by (cases "StopUnit sd") (simp add: WaitForServiceStop_def split: option.split)
  have c: "dbus_New sd = Some e' \<Longrightarrow>
         WaitForServiceStop handler sd (SpotNotice t) = ([], Some e')" for e'
    by (simp add: WaitForServiceStop_def)
  have d: "dbus_New sd = None \<Longrightarrow> ListUnitsByNames sd = (units, Some e') \<Longrightarrow>
         WaitForServiceStop handler sd (SpotNotice t) = ([], Some e')" for units e'
    by (simp add: WaitForServiceStop_def)
  have f: "dbus_New sd = None \<Longrightarrow> ListUnitsByNames sd = (units, None) \<Longrightarrow> units \<noteq> 1 \<Longrightarrow>
         WaitForServiceStop handler sd (SpotNotice t) =
           ([], Some (''failed to list status of systemd unit '' @ Service handler
                      @ '': <nil>''))" for units
    by (simp add: WaitForServiceStop_def)
  show ?thesis
    using none w by (auto simp: a b c d f)
qed

text \<open>
  The theorem at a spot notice with a stop job that ends with \<open>done\<close>, and with a bus
  that cannot be reached.
\<close>

theorem Handle_spot_no_hook_protocol_witness:
  "dbus_New systemd_done = None \<and> ListUnitsByNames systemd_done = (1, None)
   \<and> Handle handler_ok systemd_done (Some (SpotNotice 5)) schedule_tick_before_cancel =
       \<lparr>returned = Some None, panicked = None, trace = [EvStopUnit ''app.service'']\<rparr>
   \<and> dbus_New systemd_unreachable = Some ''dial unix /run/systemd/private: no such file''
   \<and> Handle handler_ok systemd_unreachable (Some (SpotNotice 5)) schedule_tick_before_cancel =
       \<lparr>returned = Some (Some ''dial unix /run/systemd/private: no such file''),
        panicked = None, trace = []\<rparr>"
  using Handle_spot_no_hook_protocol [of handler_ok systemd_done 5 schedule_tick_before_cancel]
    Handle_spot_no_hook_protocol [of handler_ok systemd_unreachable 5
      schedule_tick_before_cancel]
  by (simp add: systemd_done_def systemd_unreachable_def handler_ok_def
      WaitForServiceStop_def)

section \<open>The dispatch loop\<close>

text \<open>
  Claim C1 says that the dispatch loop receives every notice that becomes available
  before cancellation and calls \<open>Handle\<close> on it. The code does not: whatever arrives,
  \<open>main\<close> calls \<open>Handle\<close> on nothing and leaves the loop at its first test, because
  the test \<open>ctx.Err() != nil\<close> is false for the context that has not been cancelled.
\<close>

theorem main_never_calls_Handle: "main evs = ([], True)"
  by (cases evs) (simp_all add: main_def)

section \<open>Queue discovery\<close>

lemma hooks_loop_nil_map: "hooks_loop a None hooks = Ok queues \<Longrightarrow> queues = None"
proof (induction hooks)
  case Nil
  then show ?case by simp
next
  case (Cons hook rest)
  then show ?case
    by (simp add: map_has_def map_assign_def split: prod.splits option.splits if_splits)
qed

text \<open>Whenever discovery returns a list, the list is empty.\<close>

lemma GetLifecycleNoticeQueues_only_empty:
  "GetLifecycleNoticeQueues client a = (client', Ok queues) \<Longrightarrow> queues = []"
  by (auto simp: GetLifecycleNoticeQueues_def map_values_def
      split: prod.splits option.splits result.splits dest: hooks_loop_nil_map)

text \<open>
  Claim C8 says that discovery collects the queues in a mapping that is made empty before
  the first write. The code does not: for a group with one lifecycle hook that notifies an
  SQS queue, \<open>GetLifecycleNoticeQueues\<close> resolves the queue URL and then panics on the
  assignment to the nil map.
\<close>

theorem GetLifecycleNoticeQueues_panics_on_first_queue:
  "GetLifecycleNoticeQueues client_fresh (aws_with []) =
     (client_fresh\<lparr>AutoScalingGroupName := ''asg''\<rparr>, Panic ''assignment to entry in nil map'')"
  by (simp add: GetLifecycleNoticeQueues_def GetAutoScalingGroupName_def client_fresh_def
      aws_with_def map_has_def map_assign_def)

section \<open>ForLifecycleAction under every schedule\<close>

lemma never_after_append:
  "never_after P Q (xs @ ys) =
     (never_after P Q xs \<and> never_after P Q ys \<and> (list_ex Q xs \<longrightarrow> \<not> list_ex P ys))"
  by (induction xs) auto

lemma list_ex_filter: "list_ex P xs = (filter P xs \<noteq> [])"
  by (induction xs) auto

lemma never_after_none: "\<not> list_ex P xs \<Longrightarrow> never_after P Q xs"
  by (induction xs) auto

lemma exec_snoc:
  "exec handler notice f (sch @ [x]) = step handler notice f (exec handler notice f sch) x"
  by (simp add: exec_def)

lemma run_inv_start: "run_inv handler notice f start"
  by (simp add: run_inv_def start_def)

lemma run_inv_main_step:
  assumes sys: "list_all is_systemd (fst (f notice))" and inv: "run_inv handler notice f r"
  shows "run_inv handler notice f (main_step handler notice f r)"
proof -
  obtain evs e where f: "f notice = (evs, e)" by (cases "f notice")
  from sys f have "list_all is_systemd evs" by simp
  note np = systemd_not_protocol [OF this]
  show ?thesis
  proof (cases "run_panic r")
    case (Some p)
    with inv show ?thesis by simp
  next
    case None
    show ?thesis
    proof (cases "pc r")
      case AtSpawn
      with inv None show ?thesis by (simp add: run_inv_def)
    next
      case AtAction
      with inv None f np show ?thesis
        by (cases e)
           (simp_all add: run_inv_def never_after_append list_ex_filter never_after_none)
    next
      case AtComplete
      with inv None show ?thesis
        by (cases "CompleteLifecycleAction_of (Client handler) notice")
           (simp_all add: run_inv_def never_after_append list_ex_filter completion_log_def)
    next
      case AtCancel
      with inv None show ?thesis
        by (simp add: run_inv_def never_after_append list_ex_filter)
    next
      case AtReturn
      with inv None show ?thesis by (simp add: run_inv_def)
    next
      case Returned
      with inv None show ?thesis by simp
    qed
  qed
qed

lemma run_inv_step:
  assumes sys: "list_all is_systemd (fst (f notice))" and inv: "run_inv handler notice f r"
  shows "run_inv handler notice f (step handler notice f r x)"
proof (cases x)
  case StepMain
  then show ?thesis using run_inv_main_step [OF sys inv] by simp
next
  case StepTick
  with inv show ?thesis by (auto simp: run_inv_def never_after_append list_ex_filter)
next
  case StepCtxDone
  with inv show ?thesis by (auto simp: run_inv_def never_after_append list_ex_filter)
next
  case StepParentCancel
  with inv show ?thesis by (simp add: run_inv_def)
qed

lemma run_inv_exec:
  assumes sys: "list_all is_systemd (fst (f notice))"
  shows "run_inv handler notice f (exec handler notice f sch)"
proof (induction sch rule: rev_induct)
  case Nil
  show ?case by (simp add: exec_def run_inv_start)
next
  case (snoc x sch)
  then show ?case using run_inv_step [of f notice handler _ x, OF sys] by (simp add: exec_snoc)
qed







lemma Handle_lifecycle:
  assumes "notice = LaunchNotice l \<or> notice = TerminationNotice l"
  shows "Handle handler sd (Some notice) sch =
           ForLifecycleAction handler notice (action_of handler sd notice) sch"
    and "list_all is_systemd (fst (action_of handler sd notice notice))"
  using assms WaitForServiceStart_systemd WaitForServiceStop_systemd by auto

lemma Handle_lifecycle_inv:
  assumes n: "notice = LaunchNotice l \<or> notice = TerminationNotice l"
  shows "run_inv handler notice (action_of handler sd notice)
           (exec handler notice (action_of handler sd notice) sch)"
    and "trace (Handle handler sd (Some notice) sch)
           = events (exec handler notice (action_of handler sd notice) sch)"
    and "returned (Handle handler sd (Some notice) sch)
           = (if pc (exec handler notice (action_of handler sd notice) sch) = Returned
              then Some (var_err (exec handler notice (action_of handler sd notice) sch))
              else None)"
    and "panicked (Handle handler sd (Some notice) sch)
           = run_panic (exec handler notice (action_of handler sd notice) sch)"
  using run_inv_exec [of "action_of handler sd notice" notice handler sch]
    Handle_lifecycle [OF n, of handler sd]
  by (simp_all add: ForLifecycleAction_def Let_def)



lemmas concrete_defs =
  ForLifecycleAction_def exec_def start_def handler_ok_def handler_completion_fails_def
  handler_zero_interval_def
  WaitForServiceStart_def systemd_done_def systemd_unreachable_def launch_notice_def
  NewLaunchNotice_def launch_payload_def schedule_tick_before_cancel_def schedule_tick_after_return_def
  schedule_main_only_def




text \<open>
  Claim C4 says that a failure of the completion call is the result of \<open>Handle\<close>.
  The code does not do so: with a start job that ends with \<open>done\<close> and a client whose
  completion call fails, \<open>Handle\<close> returns nil.
\<close>

theorem Handle_hides_completion_failure:
  "CompleteLifecycleAction_of (Client handler_completion_fails) launch_notice
     = Some ''ValidationError''
   \<and> returned (Handle handler_completion_fails systemd_done (Some launch_notice)
        schedule_main_only) = Some None"
  by (simp add: concrete_defs)

text \<open>
  Claim C4 as amended: on a launch or termination notice, whatever the completion call
  returns, the result of \<open>Handle\<close> is the error of the action it ran (nil when the
  action returned nil); a failure of the completion call is written to the log and is
  not returned.
\<close>

theorem Handle_returns_action_error:
  assumes n: "notice = LaunchNotice l \<or> notice = TerminationNotice l"
    and r: "returned (Handle handler sd (Some notice) sch) = Some e"
  shows "e = snd (action_of handler sd notice notice)
    \<and> (\<forall>ce. CompleteLifecycleAction_of (Client handler) notice = Some ce \<longrightarrow>
          completion_log notice ce \<in> set (trace (Handle handler sd (Some notice) sch)))"
proof -
  let ?r = "exec handler notice (action_of handler sd notice) sch"
  note inv = Handle_lifecycle_inv(1) [OF n, of handler sd sch]
  note tr = Handle_lifecycle_inv(2) [OF n, of handler sd sch]
  note ret = Handle_lifecycle_inv(3) [OF n, of handler sd sch]
  from r have pc: "pc ?r = Returned" and e: "e = var_err ?r"
    by (simp_all add: ret split: if_splits)
  show ?thesis using inv pc e by (simp add: run_inv_def tr)
qed

theorem Handle_returns_action_error_witness:
  "launch_notice = LaunchNotice launch_payload
   \<and> returned (Handle handler_completion_fails systemd_done (Some launch_notice)
        schedule_main_only) = Some None
   \<and> snd (action_of handler_completion_fails systemd_done launch_notice launch_notice) = None
   \<and> CompleteLifecycleAction_of (Client handler_completion_fails) launch_notice
       = Some ''ValidationError''
   \<and> completion_log launch_notice ''ValidationError''
       \<in> set (trace (Handle handler_completion_fails systemd_done (Some launch_notice)
            schedule_main_only))"
  using Handle_returns_action_error [of launch_notice launch_payload
      handler_completion_fails systemd_done schedule_main_only None]
  by (simp add: concrete_defs completion_log_def)

text \<open>
  Claim C2 says that no heartbeat is sent after the completion send, in every execution.
  The code allows one: when the ticker fires between the completion call and
  \<open>cancel()\<close>, the trace has a heartbeat after the completion; and when the goroutine
  moves only after the caller has returned, a heartbeat follows the return of \<open>Handle\<close>.
\<close>

theorem heartbeat_after_completion:
  "\<not> never_after is_heartbeat is_completion
       (trace (Handle handler_ok systemd_done (Some launch_notice)
          schedule_tick_before_cancel))
   \<and> returned (Handle handler_ok systemd_done (Some launch_notice)
        schedule_tick_before_cancel) = Some None
   \<and> trace (Handle handler_ok systemd_done (Some launch_notice) schedule_tick_after_return) =
       [EvStartUnit ''app.service'', EvCompleteLifecycleAction launch_notice, EvCancel,
        EvSendHeartbeat launch_notice, EvHeartbeatExit]"
  by (simp add: concrete_defs)

text \<open>
  Claim C2 as amended: on a launch or termination notice, under every schedule, the
  heartbeat goroutine is told to stop at most once and never before the completion call
  (no completion call follows \<open>cancel()\<close>); when \<open>Handle\<close> has returned it has made
  the completion call and then called \<open>cancel()\<close>, without waiting for the goroutine;
  and no heartbeat is sent after the goroutine has seen the closed context and returned.
\<close>

theorem cancel_follows_completion:
  assumes n: "notice = LaunchNotice l \<or> notice = TerminationNotice l"
  shows "never_after is_completion is_cancel (trace (Handle handler sd (Some notice) sch))
    \<and> never_after is_heartbeat is_heartbeat_exit (trace (Handle handler sd (Some notice) sch))
    \<and> length (filter is_cancel (trace (Handle handler sd (Some notice) sch))) \<le> 1
    \<and> (returned (Handle handler sd (Some notice) sch) \<noteq> None \<longrightarrow>
         filter is_cancel (trace (Handle handler sd (Some notice) sch)) = [EvCancel]
         \<and> filter is_completion (trace (Handle handler sd (Some notice) sch))
             = [EvCompleteLifecycleAction notice])"
proof -
  let ?r = "exec handler notice (action_of handler sd notice) sch"
  note inv = Handle_lifecycle_inv(1) [OF n, of handler sd sch]
  note tr = Handle_lifecycle_inv(2) [OF n, of handler sd sch]
  note ret = Handle_lifecycle_inv(3) [OF n, of handler sd sch]
  have c: "length (filter is_cancel (events ?r)) \<le> 1"
    using inv by (cases "rank (pc ?r) \<le> 3") (simp_all add: run_inv_def)
  show ?thesis using inv c by (simp add: run_inv_def tr ret)
qed

theorem cancel_follows_completion_witness:
  "launch_notice = LaunchNotice launch_payload
   \<and> trace (Handle handler_ok systemd_done (Some launch_notice) schedule_tick_after_return) =
       [EvStartUnit ''app.service'', EvCompleteLifecycleAction launch_notice, EvCancel,
        EvSendHeartbeat launch_notice, EvHeartbeatExit]
   \<and> returned (Handle handler_ok systemd_done (Some launch_notice)
        schedule_tick_after_return) = Some None
   \<and> never_after is_completion is_cancel
       (trace (Handle handler_ok systemd_done (Some launch_notice) schedule_tick_after_return))
   \<and> never_after is_heartbeat is_heartbeat_exit
       (trace (Handle handler_ok systemd_done (Some launch_notice) schedule_tick_after_return))"
  using cancel_follows_completion [of launch_notice launch_payload
      handler_ok systemd_done schedule_tick_after_return]
  by (simp add: concrete_defs)

section \<open>GetLifecycleNotice and the instance filter\<close>

text \<open>
  The loop stops at the first fetched message that is addressed to this instance: that
  message alone decides the calls and the result.
\<close>

lemma messages_loop_find:
  "messages_loop a queue instanceID messages =
     (case find (addressed_to a instanceID) messages of
        None \<Rightarrow> ([], None, None)
      | Some message \<Rightarrow>
          (case DeleteMessage a (URL queue) (ReceiptHandle message) of
             Some err \<Rightarrow> ([(URL queue, ReceiptHandle message)], None, Some err)
           | None \<Rightarrow> ([(URL queue, ReceiptHandle message)],
                       notice_for (the (json_Unmarshal a (Body message))), None)))"
  by (induction messages) (auto simp: addressed_to_def split: option.splits)

lemma GetLifecycleNotice_find:
  assumes "GetInstanceID client a = (client1, instanceID, None)"
    and "ReceiveMessage a (URL queue) = (messages, None)"
  shows "GetLifecycleNotice client a queue =
     (case find (addressed_to a instanceID) messages of
        None \<Rightarrow> \<lparr>client_after = client1, deletes = [], emitted = None, fetch_err = None\<rparr>
      | Some message \<Rightarrow>
          (case DeleteMessage a (URL queue) (ReceiptHandle message) of
             Some err \<Rightarrow>
               \<lparr>client_after = client1, deletes = [(URL queue, ReceiptHandle message)],
                emitted = None, fetch_err = Some err\<rparr>
           | None \<Rightarrow>
               \<lparr>client_after = client1, deletes = [(URL queue, ReceiptHandle message)],
                emitted = notice_for (the (json_Unmarshal a (Body message))),
                fetch_err = None\<rparr>))"
  using assms by (simp add: GetLifecycleNotice_def messages_loop_find split: option.splits)

lemma find_SomeD: "find P xs = Some x \<Longrightarrow> x \<in> set xs \<and> P x"
  by (induction xs) (auto split: if_splits)

lemmas aws_defs =
  aws_with_def aws_delete_fails_def client_cached_def client_fresh_def GetInstanceID_def
  GetLifecycleNotice_def hooks_queue_def msg_launch_def msg_test_def msg_other_def
  msg_terminate_def parse_body_def notice_for_def addressed_to_def LaunchLifecycleAction_def
  TerminationLifecycleAction_def launch_notice_def NewLaunchNotice_def
  NewTerminationNotice_def queue_url_def




text \<open>
  Claim C10 says that every fetched message for this instance whose transition is
  neither constant is deleted, with a nil notice and no error returned. The code does
  not do that for every such message: behind a launch message for this instance in the
  same batch, the test notification is not deleted and the call returns the launch
  notice; and when \<open>DeleteMessage\<close> fails, the call returns its error.
\<close>

theorem unknown_transition_behind_match:
  "addressed_to (aws_with [msg_launch, msg_test]) ''i-1'' msg_test
   \<and> GetLifecycleNotice client_cached (aws_with [msg_launch, msg_test]) hooks_queue =
      \<lparr>client_after = client_cached, deletes = [(queue_url, ''r1'')],
       emitted = Some launch_notice, fetch_err = None\<rparr>
   \<and> GetLifecycleNotice client_cached (aws_delete_fails [msg_test]) hooks_queue =
      \<lparr>client_after = client_cached, deletes = [(queue_url, ''r3'')], emitted = None,
       fetch_err = Some ''AccessDenied''\<rparr>"
  by (simp add: aws_defs)

text \<open>
  Claim C10 as amended. When the instance identity is known and the fetch succeeds, and
  the first fetched message addressed to this instance has a transition that is neither
  the launch nor the termination constant: if \<open>DeleteMessage\<close> succeeds on it,
  \<open>GetLifecycleNotice\<close> deletes that message and no other, and returns a nil notice
  and no error; if \<open>DeleteMessage\<close> fails on it, the call returns that error and a nil
  notice. Whatever the first message addressed to this instance is, every other message
  of the batch, matching or not, is left untouched by the call, and a returned notice is
  made from the first one.
\<close>

theorem GetLifecycleNotice_consumes_unknown_transition:
  assumes id: "GetInstanceID client a = (client1, instanceID, None)"
    and rcv: "ReceiveMessage a (URL queue) = (messages, None)"
  shows "(\<forall>message m.
           find (addressed_to a instanceID) messages = Some message
           \<and> json_Unmarshal a (Body message) = Some m
           \<and> LifecycleTransition m \<noteq> LaunchLifecycleAction
           \<and> LifecycleTransition m \<noteq> TerminationLifecycleAction \<longrightarrow>
             (DeleteMessage a (URL queue) (ReceiptHandle message) = None \<longrightarrow>
                GetLifecycleNotice client a queue =
                  \<lparr>client_after = client1, deletes = [(URL queue, ReceiptHandle message)],
                   emitted = None, fetch_err = None\<rparr>)
             \<and> (\<forall>err. DeleteMessage a (URL queue) (ReceiptHandle message) = Some err \<longrightarrow>
                GetLifecycleNotice client a queue =
                  \<lparr>client_after = client1, deletes = [(URL queue, ReceiptHandle message)],
                   emitted = None, fetch_err = Some err\<rparr>))
    \<and> (\<forall>first other.
           find (addressed_to a instanceID) messages = Some first
           \<and> other \<in> set messages \<and> ReceiptHandle other \<noteq> ReceiptHandle first \<longrightarrow>
             (URL queue, ReceiptHandle other)
               \<notin> set (deletes (GetLifecycleNotice client a queue))
             \<and> (\<forall>n. emitted (GetLifecycleNotice client a queue) = Some n \<longrightarrow>
                  (\<exists>m. json_Unmarshal a (Body first) = Some m \<and> notice_for m = Some n)))"
proof -
  note r = GetLifecycleNotice_find [OF id rcv]
  have 1: "DeleteMessage a (URL queue) (ReceiptHandle message) = None \<longrightarrow>
                GetLifecycleNotice client a queue =
                  \<lparr>client_after = client1, deletes = [(URL queue, ReceiptHandle message)],
                   emitted = None, fetch_err = None\<rparr>"
    if "find (addressed_to a instanceID) messages = Some message"
      and "json_Unmarshal a (Body message) = Some m"
      and "LifecycleTransition m \<noteq> LaunchLifecycleAction"
      and "LifecycleTransition m \<noteq> TerminationLifecycleAction" for message m
    using r that by (simp add: notice_for_def)
  have 2: "\<forall>err. DeleteMessage a (URL queue) (ReceiptHandle message) = Some err \<longrightarrow>
                GetLifecycleNotice client a queue =
                  \<lparr>client_after = client1, deletes = [(URL queue, ReceiptHandle message)],
                   emitted = None, fetch_err = Some err\<rparr>"
    if "find (addressed_to a instanceID) messages = Some message" for message
    using r that by simp
  have 3: "(URL queue, ReceiptHandle other)
               \<notin> set (deletes (GetLifecycleNotice client a queue))
             \<and> (\<forall>n. emitted (GetLifecycleNotice client a queue) = Some n \<longrightarrow>
                  (\<exists>m. json_Unmarshal a (Body first) = Some m \<and> notice_for m = Some n))"
    if f: "find (addressed_to a instanceID) messages = Some first"
      and "ReceiptHandle other \<noteq> ReceiptHandle first"
    for first :: sqs_message and other :: sqs_message
  proof -
    from f have "addressed_to a instanceID first" using find_SomeD by fastforce
    then obtain m where "json_Unmarshal a (Body first) = Some m"
      by (auto simp: addressed_to_def split: option.splits)
    then show ?thesis
      using r f that(2)
      by (cases "DeleteMessage a (URL queue) (ReceiptHandle first)") auto
  qed
  show ?thesis using 1 2 3 by blast
qed

text \<open>
  The theorem on a batch in which the test notification is the first message for this
  instance; on the same message when its deletion fails; and on a batch in which it comes
  behind a launch message for this instance.
\<close>

theorem GetLifecycleNotice_consumes_unknown_transition_witness:
  "GetInstanceID client_fresh (aws_with [msg_other, msg_test, msg_launch])
     = (client_fresh\<lparr>InstanceID := ''i-1''\<rparr>, ''i-1'', None)
   \<and> find (addressed_to (aws_with [msg_other, msg_test, msg_launch]) ''i-1'')
       [msg_other, msg_test, msg_launch] = Some msg_test
   \<and> GetLifecycleNotice client_fresh (aws_with [msg_other, msg_test, msg_launch]) hooks_queue =
      \<lparr>client_after = client_fresh\<lparr>InstanceID := ''i-1''\<rparr>, deletes = [(queue_url, ''r3'')],
       emitted = None, fetch_err = None\<rparr>
   \<and> DeleteMessage (aws_delete_fails [msg_test]) queue_url ''r3'' = Some ''AccessDenied''
   \<and> GetLifecycleNotice client_cached (aws_delete_fails [msg_test]) hooks_queue =
      \<lparr>client_after = client_cached, deletes = [(queue_url, ''r3'')], emitted = None,
       fetch_err = Some ''AccessDenied''\<rparr>
   \<and> find (addressed_to (aws_with [msg_launch, msg_test]) ''i-1'') [msg_launch, msg_test]
       = Some msg_launch
   \<and> (queue_url, ReceiptHandle msg_test)
       \<notin> set (deletes (GetLifecycleNotice client_cached (aws_with [msg_launch, msg_test])
                       hooks_queue))
   \<and> emitted (GetLifecycleNotice client_cached (aws_with [msg_launch, msg_test]) hooks_queue)
       = Some launch_notice"
  using GetLifecycleNotice_consumes_unknown_transition [of client_fresh
      "aws_with [msg_other, msg_test, msg_launch]" "client_fresh\<lparr>InstanceID := ''i-1''\<rparr>"
      "''i-1''" hooks_queue "[msg_other, msg_test, msg_launch]"]
    GetLifecycleNotice_consumes_unknown_transition [of client_cached
      "aws_delete_fails [msg_test]" client_cached "''i-1''" hooks_queue "[msg_test]"]
    GetLifecycleNotice_consumes_unknown_transition [of client_cached
      "aws_with [msg_launch, msg_test]" client_cached "''i-1''" hooks_queue
      "[msg_launch, msg_test]"]
  by (simp add: aws_defs)

section \<open>The pending notice of a listener\<close>

lemma var_notice_enable: "var_notice (enable s) = var_notice s"
  by (simp add: enable_def)

lemma var_notice_poll: "var_notice (poll_into msg res s) = fst res"
  by (cases res) (simp add: poll_into_def split: option.splits)

lemma sent_poll: "sent (poll_into msg res s) = sent s"
  by (cases res) (simp add: poll_into_def split: option.splits)

lemma spot_polls_Cons: "spot_polls (ev # evs) = spot_polls [ev] @ spot_polls evs"
  by (cases ev) simp_all

lemma lifecycle_polls_Cons:
  "lifecycle_polls (ev # evs) = lifecycle_polls [ev] @ lifecycle_polls evs"
  by (cases "(ev # evs)" rule: lifecycle_polls.cases) simp_all

lemma SpotListener_Listen_append:
  "0 < Interval listener \<Longrightarrow>
     SpotListener_Listen listener (evs @ evs')
       = foldl spot_step (SpotListener_Listen listener evs) evs'"
  by (simp add: SpotListener_Listen_def)

lemma LifecycleListener_Listen_append:
  "LifecycleListener_Listen queue (evs @ evs')
     = foldl (lifecycle_step (Name queue)) (LifecycleListener_Listen queue evs) evs'"
  by (simp add: LifecycleListener_Listen_def)

text \<open>A poll that runs puts its result in the variable, whatever the variable held.\<close>

lemma spot_poll_replaces:
  "\<not> stopped s \<Longrightarrow> var_notice (spot_step s (SpotTick res)) = fst res"
  by (simp add: Let_def var_notice_poll)

lemma lifecycle_poll_replaces:
  "\<not> stopped s \<Longrightarrow>
     var_notice (lifecycle_step q s (Iteration False False picks_done res)) = fst res"
  by (simp add: Let_def var_notice_poll)

text \<open>
  While every poll returns the held notice, a step keeps it in the variable, and the
  channel accepts nothing or that notice.
\<close>

lemma kept_spot_step:
  assumes "var_notice s = Some n" and "\<forall>res \<in> set (spot_polls [ev]). fst res = Some n"
  shows "var_notice (spot_step s ev) = Some n
         \<and> (sent (spot_step s ev) = sent s \<or> sent (spot_step s ev) = sent s @ [Some n])"
  using assms
  by (cases ev) (simp_all add: Let_def var_notice_enable var_notice_poll sent_poll,
      simp_all add: enable_def)

lemma kept_lifecycle_step:
  assumes "var_notice s = Some n" and "\<forall>res \<in> set (lifecycle_polls [ev]). fst res = Some n"
  shows "var_notice (lifecycle_step q s ev) = Some n
         \<and> (sent (lifecycle_step q s ev) = sent s
              \<or> sent (lifecycle_step q s ev) = sent s @ [Some n])"
proof (cases ev)
  case (Iteration receiving ctx_is_done picks_done res)
  have en: "var_notices (enable s)" "var_notice (enable s) = Some n" "sent (enable s) = sent s"
    using assms(1) by (simp_all add: enable_def)
  show ?thesis
  proof (cases "receiving \<or> ctx_is_done")
    case True
    then show ?thesis using Iteration assms(1) en
      by (auto simp: Let_def)
  next
    case False
    then have "fst res = Some n" using assms(2) Iteration by simp
    then show ?thesis using Iteration False assms(1) en
      by (simp add: Let_def var_notice_poll sent_poll)
  qed
qed

lemma kept_spot_run:
  assumes "var_notice s = Some n" and "\<forall>res \<in> set (spot_polls evs). fst res = Some n"
  shows "var_notice (foldl spot_step s evs) = Some n
         \<and> (\<exists>k. sent (foldl spot_step s evs) = sent s @ replicate k (Some n))"
  using assms
proof (induction evs arbitrary: s)
  case Nil
  then show ?case by simp
next
  case (Cons ev evs)
  from Cons.prems(2) have 1: "\<forall>res \<in> set (spot_polls [ev]). fst res = Some n"
    and 2: "\<forall>res \<in> set (spot_polls evs). fst res = Some n"
    by (simp_all add: spot_polls_Cons [of ev evs])
  note st = kept_spot_step [OF Cons.prems(1) 1]
  from Cons.IH [OF conjunct1 [OF st] 2] obtain k
    where v: "var_notice (foldl spot_step (spot_step s ev) evs) = Some n"
      and k: "sent (foldl spot_step (spot_step s ev) evs)
                = sent (spot_step s ev) @ replicate k (Some n)"
    by blast
  from st have "sent (spot_step s ev) = sent s @ replicate 0 (Some n)
                \<or> sent (spot_step s ev) = sent s @ replicate 1 (Some n)"
    by simp
  then have "\<exists>j. sent (foldl spot_step (spot_step s ev) evs) = sent s @ replicate j (Some n)"
    using k by (metis append.assoc replicate_add)
  then show ?case using v by (simp del: spot_step.simps)
qed

lemma kept_lifecycle_run:
  assumes "var_notice s = Some n" and "\<forall>res \<in> set (lifecycle_polls evs). fst res = Some n"
  shows "var_notice (foldl (lifecycle_step q) s evs) = Some n
         \<and> (\<exists>k. sent (foldl (lifecycle_step q) s evs) = sent s @ replicate k (Some n))"
  using assms
proof (induction evs arbitrary: s)
  case Nil
  then show ?case by simp
next
  case (Cons ev evs)
  from Cons.prems(2) have 1: "\<forall>res \<in> set (lifecycle_polls [ev]). fst res = Some n"
    and 2: "\<forall>res \<in> set (lifecycle_polls evs). fst res = Some n"
    by (simp_all add: lifecycle_polls_Cons [of ev evs])
  note st = kept_lifecycle_step [OF Cons.prems(1) 1, of q]
  from Cons.IH [OF conjunct1 [OF st] 2] obtain k
    where v: "var_notice (foldl (lifecycle_step q) (lifecycle_step q s ev) evs) = Some n"
      and k: "sent (foldl (lifecycle_step q) (lifecycle_step q s ev) evs)
                = sent (lifecycle_step q s ev) @ replicate k (Some n)"
    by blast
  from st have "sent (lifecycle_step q s ev) = sent s @ replicate 0 (Some n)
                \<or> sent (lifecycle_step q s ev) = sent s @ replicate 1 (Some n)"
    by simp
  then have "\<exists>j. sent (foldl (lifecycle_step q) (lifecycle_step q s ev) evs)
                  = sent s @ replicate j (Some n)"
    using k by (metis append.assoc replicate_add)
  then show ?case using v by (simp del: lifecycle_step.simps)
qed

lemmas listener_defs =
  SpotListener_Listen_def LifecycleListener_Listen_def listener_start_def enable_def
  poll_into_def pending_def spot_listener_def spot_detects_def spot_polls_again_def
  spot_poll_fails_def lifecycle_detects_def lifecycle_accepted_def lifecycle_queue_empty_def

text \<open>
  Claim C7 says that a source does not poll while its notice is pending, or let a poll
  put another value or nil in its place, so that no pending notice is dropped. The code
  does both. The spot listener holds the notice it has detected, undelivered; the next
  poll fails while the notice waits, and the variable is nil: the notice is never
  delivered, and the dispatcher is handed nil. The lifecycle listener holds the notice of
  a message it has deleted from the queue; the dispatcher is not receiving, so it polls
  again, the queue is empty, and the notice is lost in the same way.
\<close>

theorem pending_notice_dropped_by_poll:
  "pending (SpotListener_Listen spot_listener spot_detects) = [SpotNotice 5]
   \<and> sent (SpotListener_Listen spot_listener spot_detects) = []
   \<and> SpotListener_Listen spot_listener (spot_detects @ spot_poll_fails) =
       \<lparr>var_notice = None, var_notices = False, sent = [None],
        logs = [''failed to get spot notice: timeout''], stopped = False,
        listener_panic = None\<rparr>
   \<and> pending (LifecycleListener_Listen hooks_queue lifecycle_detects) = [launch_notice]
   \<and> sent (LifecycleListener_Listen hooks_queue lifecycle_detects) = []
   \<and> LifecycleListener_Listen hooks_queue (lifecycle_detects @ lifecycle_queue_empty) =
       \<lparr>var_notice = None, var_notices = False, sent = [None], logs = [], stopped = False,
        listener_panic = None\<rparr>"
  by (simp add: listener_defs)

text \<open>
  Claim C7 as amended, for the spot listener with a positive interval and for the
  lifecycle listener. A listener holds at most one undelivered notice, in its one
  variable. It polls also while a notice is pending, and a poll that runs puts its result
  in the variable, whatever the variable held. A pending notice is kept as long as every
  poll that runs while it waits returns that same notice: the variable then holds it
  after any further events, and every value the channel accepts in the meantime is that
  notice. When the dispatcher accepts while a notice is held, it receives that notice.
\<close>

theorem poll_replaces_pending_notice:
  assumes iv: "0 < Interval listener"
  shows "length (pending (SpotListener_Listen listener evs)) \<le> 1
    \<and> (\<not> stopped (SpotListener_Listen listener evs) \<longrightarrow>
         var_notice (SpotListener_Listen listener (evs @ [SpotTick res])) = fst res)
    \<and> (var_notice (SpotListener_Listen listener evs) = Some n
        \<and> (\<forall>r \<in> set (spot_polls evs'). fst r = Some n) \<longrightarrow>
         var_notice (SpotListener_Listen listener (evs @ evs')) = Some n
         \<and> (\<exists>k. sent (SpotListener_Listen listener (evs @ evs'))
                  = sent (SpotListener_Listen listener evs) @ replicate k (Some n)))
    \<and> (var_notice (SpotListener_Listen listener evs) = Some n
        \<and> \<not> stopped (SpotListener_Listen listener evs) \<longrightarrow>
         sent (SpotListener_Listen listener (evs @ [SpotAccept]))
           = sent (SpotListener_Listen listener evs) @ [Some n])
    \<and> length (pending (LifecycleListener_Listen queue its)) \<le> 1
    \<and> (\<not> stopped (LifecycleListener_Listen queue its) \<longrightarrow>
         var_notice (LifecycleListener_Listen queue
                       (its @ [Iteration False False picks_done res'])) = fst res')
    \<and> (var_notice (LifecycleListener_Listen queue its) = Some m
        \<and> (\<forall>r \<in> set (lifecycle_polls its'). fst r = Some m) \<longrightarrow>
         var_notice (LifecycleListener_Listen queue (its @ its')) = Some m
         \<and> (\<exists>k. sent (LifecycleListener_Listen queue (its @ its'))
                  = sent (LifecycleListener_Listen queue its) @ replicate k (Some m)))
    \<and> (var_notice (LifecycleListener_Listen queue its) = Some m
        \<and> \<not> stopped (LifecycleListener_Listen queue its) \<longrightarrow>
         sent (LifecycleListener_Listen queue (its @ [Iteration True False picks res'']))
           = sent (LifecycleListener_Listen queue its) @ [Some m])"
proof -
  let ?s = "SpotListener_Listen listener evs"
  let ?l = "LifecycleListener_Listen queue its"
  note sa = SpotListener_Listen_append [OF iv]
  note la = LifecycleListener_Listen_append
  have p: "length (pending s) \<le> 1" for s
    by (simp add: pending_def split: option.split)
  have 1: "\<not> stopped ?s \<longrightarrow>
         var_notice (SpotListener_Listen listener (evs @ [SpotTick res])) = fst res"
    using spot_poll_replaces [of ?s res] by (simp add: sa del: spot_step.simps)
  have 2: "var_notice ?s = Some n \<and> (\<forall>r \<in> set (spot_polls evs'). fst r = Some n) \<longrightarrow>
         var_notice (SpotListener_Listen listener (evs @ evs')) = Some n
         \<and> (\<exists>k. sent (SpotListener_Listen listener (evs @ evs'))
                  = sent ?s @ replicate k (Some n))"
    using kept_spot_run [of ?s n evs'] by (simp add: sa del: spot_step.simps)
  have 3: "var_notice ?s = Some n \<and> \<not> stopped ?s \<longrightarrow>
         sent (SpotListener_Listen listener (evs @ [SpotAccept])) = sent ?s @ [Some n]"
    by (simp add: sa enable_def)
  have 4: "\<not> stopped ?l \<longrightarrow>
         var_notice (LifecycleListener_Listen queue
                       (its @ [Iteration False False picks_done res'])) = fst res'"
    using lifecycle_poll_replaces [of ?l "Name queue" picks_done res']
    by (simp add: la del: lifecycle_step.simps)
  have 5: "var_notice ?l = Some m \<and> (\<forall>r \<in> set (lifecycle_polls its'). fst r = Some m) \<longrightarrow>
         var_notice (LifecycleListener_Listen queue (its @ its')) = Some m
         \<and> (\<exists>k. sent (LifecycleListener_Listen queue (its @ its'))
                  = sent ?l @ replicate k (Some m))"
    using kept_lifecycle_run [of ?l m its' "Name queue"]
    by (simp add: la del: lifecycle_step.simps)
  have 6: "var_notice ?l = Some m \<and> \<not> stopped ?l \<longrightarrow>
         sent (LifecycleListener_Listen queue (its @ [Iteration True False picks res'']))
           = sent ?l @ [Some m]"
    by (simp add: la enable_def)
  show ?thesis using p [of ?s] p [of ?l] 1 2 3 4 5 6 by blast
qed

text \<open>
  The theorem on the schedules of the counterexample, and on schedules in which the
  notice waits and is delivered: the spot listener polls the same notice again before the
  dispatcher accepts it, and the lifecycle listener is accepted before it polls again.
\<close>

theorem poll_replaces_pending_notice_witness:
  "0 < Interval spot_listener
   \<and> var_notice (SpotListener_Listen spot_listener spot_detects) = Some (SpotNotice 5)
   \<and> \<not> stopped (SpotListener_Listen spot_listener spot_detects)
   \<and> var_notice (SpotListener_Listen spot_listener
         (spot_detects @ [SpotTick (None, Some ''timeout'')])) = None
   \<and> spot_polls spot_polls_again = [(Some (SpotNotice 5), None)]
   \<and> var_notice (SpotListener_Listen spot_listener (spot_detects @ spot_polls_again))
       = Some (SpotNotice 5)
   \<and> sent (SpotListener_Listen spot_listener (spot_detects @ spot_polls_again))
       = [Some (SpotNotice 5)]
   \<and> var_notice (LifecycleListener_Listen hooks_queue lifecycle_detects) = Some launch_notice
   \<and> \<not> stopped (LifecycleListener_Listen hooks_queue lifecycle_detects)
   \<and> var_notice (LifecycleListener_Listen hooks_queue
         (lifecycle_detects @ [Iteration False False False (None, None)])) = None
   \<and> lifecycle_polls lifecycle_accepted = []
   \<and> sent (LifecycleListener_Listen hooks_queue (lifecycle_detects @ lifecycle_accepted))
       = [Some launch_notice]"
  using poll_replaces_pending_notice [of spot_listener spot_detects
      "(None, Some ''timeout'')" "SpotNotice 5" spot_polls_again hooks_queue lifecycle_detects
      False "(None, None)" launch_notice lifecycle_accepted False "(None, None)"]
  by (simp add: listener_defs)

end
